theory Spec2Isabelle
  imports Main
begin

section \<open>Data model of the chat context\<close>

text \<open>
  The chat client lives in \<^verbatim>\<open>contexts/ChatContext\<close> (second document of
  \<^verbatim>\<open>frontend/src/App.jsx\<close>) and in \<^verbatim>\<open>services/api\<close> (second document of
  \<^verbatim>\<open>frontend/src/services/api.ts\<close>). The React state of \<^verbatim>\<open>ChatProvider\<close> is a
  record; every setter call of the source is a record update. Fields carry the types the
  wire protocol gives them: strings and booleans. A field that is missing (\<^verbatim>\<open>undefined\<close>)
  or \<^verbatim>\<open>null\<close> is \<open>None\<close>. Console output is not part of the state.
\<close>

datatype role = User | Assistant

record message =
  role :: role
  content :: string
  shouldPost :: "bool option"

text \<open>\<^verbatim>\<open>WebSocket.readyState\<close>: the only property of the socket object that the context reads.\<close>

datatype ready_state = CONNECTING | OPEN | CLOSING | CLOSED

record chat_state =
  messages :: "message list"
  isTyping :: bool
  currentPostContent :: "string option"
  showPostPreview :: bool
  websocket :: "ready_state option"
  useWebsocket :: bool

text \<open>The \<^verbatim>\<open>useState\<close> defaults of \<^verbatim>\<open>ChatProvider\<close>.\<close>

definition initial_state :: chat_state where
  "initial_state =
     \<lparr>messages = [], isTyping = False, currentPostContent = None,
      showPostPreview = False, websocket = None, useWebsocket = True\<rparr>"

text \<open>The object that \<^verbatim>\<open>JSON.parse\<close> returns for a frame of the socket: the five properties
  that \<^verbatim>\<open>handleWebSocketMessage\<close> reads.\<close>

record ws_data =
  data_error :: "string option"
  data_type :: "string option"
  data_should_post :: "bool option"
  data_post_content :: "string option"
  data_content :: "string option"

text \<open>The body of the reply that \<^verbatim>\<open>sendMessageREST\<close> reads. Its \<^verbatim>\<open>message\<close> is a string
  here; a reply without \<^verbatim>\<open>message\<close>, for which the source stores the content
  \<^verbatim>\<open>undefined\<close>, has no value in this type.\<close>

record rest_response =
  response_message :: string
  response_should_post :: "bool option"
  response_post_content :: "string option"

text \<open>JavaScript truthiness of an optional string and of an optional boolean.\<close>

definition truthy_string :: "string option \<Rightarrow> bool" where
  "truthy_string v = (case v of None \<Rightarrow> False | Some s \<Rightarrow> s \<noteq> [])"

definition truthy_bool :: "bool option \<Rightarrow> bool" where
  "truthy_bool v = (case v of None \<Rightarrow> False | Some b \<Rightarrow> b)"

subsection \<open>Outgoing requests\<close>

text \<open>Request bodies are JSON values before \<^verbatim>\<open>JSON.stringify\<close>; an object keeps the order
  of its keys.\<close>

datatype json = JString string | JArray "json list" | JObject "(string \<times> json) list"

record request =
  req_url :: string
  req_method :: string
  req_headers :: "(string \<times> string) list"
  req_body :: json

datatype effect =
    OpenSocket string
  | CloseSocket
  | WsSend json
  | Fetch request

definition API_BASE_URL :: string where
  "API_BASE_URL = ''http://localhost:8000''"

definition WS_BASE_URL :: string where
  "WS_BASE_URL = ''ws://localhost:8000/ws''"

fun role_string :: "role \<Rightarrow> string" where
  "role_string User = ''user''"
| "role_string Assistant = ''assistant''"

text \<open>\<^verbatim>\<open>messages.map(msg => ({ role: msg.role, content: msg.content }))\<close>\<close>

definition chatHistory :: "message list \<Rightarrow> json list" where
  "chatHistory msgs =
     map (\<lambda>msg. JObject [(''role'', JString (role_string (role msg))),
                          (''content'', JString (content msg))]) msgs"

text \<open>\<^verbatim>\<open>fetchChatResponse\<close> of \<^verbatim>\<open>services/api\<close>, the one the chat context imports:
  the request it hands to \<^verbatim>\<open>fetch\<close>.\<close>

definition fetchChatResponse :: "string \<Rightarrow> json list \<Rightarrow> request" where
  "fetchChatResponse message chat_history =
     \<lparr>req_url = API_BASE_URL @ ''/chat'',
      req_method = ''POST'',
      req_headers = [(''Content-Type'', ''application/json''), (''Accept'', ''application/json'')],
      req_body = JObject [(''messages'',
         JArray (chat_history @ [JObject [(''role'', JString ''user''),
                                          (''content'', JString message)]]))]\<rparr>"

text \<open>\<^verbatim>\<open>fetchChatResponse\<close> of \<^verbatim>\<open>api/api.js\<close>. Its history entries are the UI messages of
  \<^verbatim>\<open>components/ChatInterface.jsx\<close> (\<^verbatim>\<open>isUser\<close>, \<^verbatim>\<open>text\<close>). Strings are lists of 8-bit
  characters read as ASCII, so \<^verbatim>\<open>trim\<close> strips the six ASCII white space characters. The
  other white space that \<^verbatim>\<open>String.prototype.trim\<close> strips (U+00A0, U+FEFF, the Unicode
  space separators and line terminators) has no value in this type: \<^verbatim>\<open>trim\<close> is that of the
  source on ASCII strings only.\<close>

record ui_message =
  isUser :: bool
  text_of :: string

definition js_whitespace :: "char \<Rightarrow> bool" where
  "js_whitespace c = (c \<in> set [CHR 0x09, CHR 0x0A, CHR 0x0B, CHR 0x0C, CHR 0x0D, CHR '' ''])"

definition trim :: "string \<Rightarrow> string" where
  "trim s = rev (dropWhile js_whitespace (rev (dropWhile js_whitespace s)))"

definition fetchChatResponse_api_js :: "string \<Rightarrow> ui_message list \<Rightarrow> request" where
  "fetchChatResponse_api_js message chat_history =
     (let formattedHistory =
            map (\<lambda>msg. JObject [(''role'', JString (if isUser msg then ''user'' else ''assistant'')),
                                 (''content'', JString (text_of msg))]) chat_history;
          requestBody = JObject [(''message'', JString (trim message)),
                                 (''chat_history'', JArray formattedHistory)]
      in \<lparr>req_url = ''http://localhost:8000/chat'',
          req_method = ''POST'',
          req_headers = [(''Content-Type'', ''application/json'')],
          req_body = requestBody\<rparr>)"

text \<open>\<^verbatim>\<open>sendMessage\<close> of \<^verbatim>\<open>services/api.ts\<close> (first document): \<^verbatim>\<open>api.post('/chat', ...)\<close> on
  the axios instance, without the bearer token that the interceptor may add.\<close>

definition sendMessage_api_ts :: "string \<Rightarrow> request" where
  "sendMessage_api_ts message =
     \<lparr>req_url = API_BASE_URL @ ''/chat'',
      req_method = ''POST'',
      req_headers = [(''Content-Type'', ''application/json'')],
      req_body = JObject [(''message'', JString message), (''chat_history'', JArray [])]\<rparr>"

section \<open>Stream assembler: \<^verbatim>\<open>handleWebSocketMessage\<close>\<close>

text \<open>The updater that the content branch passes to \<^verbatim>\<open>setMessages\<close>.\<close>

definition append_content_chunk :: "string \<Rightarrow> message list \<Rightarrow> message list" where
  "append_content_chunk chunk prev =
     (let lastMessageIndex = int (length prev) - 1 in
      if lastMessageIndex < 0 \<or> role (prev ! nat lastMessageIndex) \<noteq> Assistant
      then prev @ [\<lparr>role = Assistant, content = chunk, shouldPost = None\<rparr>]
      else prev[nat lastMessageIndex :=
             (prev ! nat lastMessageIndex)
               \<lparr>content := content (prev ! nat lastMessageIndex) @ chunk\<rparr>])"

definition handleWebSocketMessage :: "ws_data \<Rightarrow> chat_state \<Rightarrow> chat_state" where
  "handleWebSocketMessage data st =
     (if truthy_string (data_error data) then st\<lparr>isTyping := False\<rparr>
      else if data_type data = Some ''complete'' then
        (if truthy_bool (data_should_post data) \<and> truthy_string (data_post_content data)
         then st\<lparr>isTyping := False,
                 currentPostContent := data_post_content data,
                 showPostPreview := True\<rparr>
         else st\<lparr>isTyping := False\<rparr>)
      else (case data_content data of
              None \<Rightarrow> st
            | Some chunk \<Rightarrow>
                if chunk \<noteq> [] then st\<lparr>messages := append_content_chunk chunk (messages st)\<rparr>
                else st))"

text \<open>The callbacks that the provider passes to \<^verbatim>\<open>setupChatWebSocket\<close> besides
  \<^verbatim>\<open>onMessage\<close>: both only write to the console.\<close>

definition onClose :: "chat_state \<Rightarrow> chat_state" where
  "onClose st = st"

definition onError :: "chat_state \<Rightarrow> chat_state" where
  "onError st = st"

text \<open>\<^verbatim>\<open>ws.onmessage\<close> of \<^verbatim>\<open>setupChatWebSocket\<close>. \<^verbatim>\<open>JSON.parse\<close> throws on a malformed frame;
  on the frame \<^verbatim>\<open>null\<close> it returns \<^verbatim>\<open>null\<close>, and the first property read of the handler
  throws. The \<^verbatim>\<open>try\<close> block encloses both calls, so either exception reaches
  \<^verbatim>\<open>onError\<close>. Any other JSON value without the five properties behaves as the object
  whose fields are all missing.\<close>

datatype ws_payload = Unparsable | ParsedNull | Parsed ws_data

definition ws_onmessage :: "ws_payload \<Rightarrow> chat_state \<Rightarrow> chat_state" where
  "ws_onmessage payload st =
     (case payload of
        Unparsable \<Rightarrow> onError st
      | ParsedNull \<Rightarrow> onError st
      | Parsed data \<Rightarrow> handleWebSocketMessage data st)"

text \<open>The three stream events of the specification as the frames of its section 6:
  \<^verbatim>\<open>{content}\<close>, \<^verbatim>\<open>{type:"complete", should_post, post_content}\<close> and \<^verbatim>\<open>{error}\<close>.\<close>

definition Fragment :: "string \<Rightarrow> ws_data" where
  "Fragment t =
     \<lparr>data_error = None, data_type = None, data_should_post = None,
      data_post_content = None, data_content = Some t\<rparr>"

definition Complete :: "bool \<Rightarrow> string option \<Rightarrow> ws_data" where
  "Complete shouldPublish publishContent =
     \<lparr>data_error = None, data_type = Some ''complete'', data_should_post = Some shouldPublish,
      data_post_content = publishContent, data_content = None\<rparr>"

definition Error :: "string \<Rightarrow> ws_data" where
  "Error msg =
     \<lparr>data_error = Some msg, data_type = None, data_should_post = None,
      data_post_content = None, data_content = None\<rparr>"

text \<open>Events are applied in arrival order.\<close>

definition applyStreamEvents :: "ws_data list \<Rightarrow> chat_state \<Rightarrow> chat_state" where
  "applyStreamEvents ds st = fold handleWebSocketMessage ds st"

section \<open>Sending\<close>

definition userMessage :: "string \<Rightarrow> message" where
  "userMessage messageText = \<lparr>role = User, content = messageText, shouldPost = None\<rparr>"

text \<open>\<^verbatim>\<open>sendMessageREST\<close> up to its \<^verbatim>\<open>await\<close>: the closure's \<^verbatim>\<open>messages\<close> is the list of the
  render in which the function was created, here the state at the call.\<close>

definition sendMessageREST :: "string \<Rightarrow> chat_state \<Rightarrow> chat_state \<times> effect list" where
  "sendMessageREST messageText st =
     (st\<lparr>isTyping := True, messages := messages st @ [userMessage messageText]\<rparr>,
      [Fetch (fetchChatResponse messageText (chatHistory (messages st)))])"

text \<open>How the promise of \<^verbatim>\<open>fetchChatResponse\<close> settles: \<^verbatim>\<open>fetch\<close> rejects, the status is
  not ok, the body is not JSON (all three throw), or the parsed body is returned.\<close>

datatype fetch_outcome = NetworkError | HttpError | BodyUnparsable | Reply rest_response

text \<open>\<^verbatim>\<open>sendMessageREST\<close> after its \<^verbatim>\<open>await\<close>, \<^verbatim>\<open>catch\<close> block included.\<close>

definition sendMessageREST_settled :: "fetch_outcome \<Rightarrow> chat_state \<Rightarrow> chat_state" where
  "sendMessageREST_settled outcome st =
     (case outcome of
        Reply response \<Rightarrow>
          (let st1 = st\<lparr>messages := messages st @
                          [\<lparr>role = Assistant, content = response_message response,
                            shouldPost = response_should_post response\<rparr>]\<rparr>;
               st2 = (if truthy_bool (response_should_post response)
                         \<and> truthy_string (response_post_content response)
                      then st1\<lparr>currentPostContent := response_post_content response,
                               showPostPreview := True\<rparr>
                      else st1)
           in st2\<lparr>isTyping := False\<rparr>)
      | _ \<Rightarrow> st\<lparr>isTyping := False\<rparr>)"

definition sendMessageWS :: "string \<Rightarrow> chat_state \<Rightarrow> chat_state \<times> effect list" where
  "sendMessageWS messageText st =
     (if websocket st = None \<or> websocket st \<noteq> Some OPEN
      then sendMessageREST messageText st
      else (st\<lparr>isTyping := True, messages := messages st @ [userMessage messageText]\<rparr>,
            [WsSend (JObject [(''message'', JString messageText),
                              (''chat_history'', JArray (chatHistory (messages st)))])]))"

definition sendMessage :: "string \<Rightarrow> chat_state \<Rightarrow> chat_state \<times> effect list" where
  "sendMessage messageText st =
     (if useWebsocket st \<and> websocket st \<noteq> None
      then sendMessageWS messageText st
      else sendMessageREST messageText st)"

text \<open>The two callers of \<^verbatim>\<open>sendMessage\<close>: \<^verbatim>\<open>handleTopicSelect\<close> of \<^verbatim>\<open>ChatContainer\<close> (a click
  on a topic of the sidebar) and \<^verbatim>\<open>handleSubmit\<close> of \<^verbatim>\<open>ChatInput\<close>, whose \<^verbatim>\<open>isLoading\<close>
  property is \<^verbatim>\<open>isTyping\<close>. The text of the input box is local to \<^verbatim>\<open>ChatInput\<close>.\<close>

definition handleTopicSelect :: "string \<Rightarrow> chat_state \<Rightarrow> chat_state \<times> effect list" where
  "handleTopicSelect topic st = sendMessage topic st"

definition handleSubmit :: "string \<Rightarrow> chat_state \<Rightarrow> chat_state \<times> effect list" where
  "handleSubmit message st =
     (if trim message \<noteq> [] \<and> \<not> isTyping st then sendMessage message st else (st, []))"

definition postToLinkedIn :: "chat_state \<Rightarrow> chat_state" where
  "postToLinkedIn st = st\<lparr>showPostPreview := False\<rparr>"

section \<open>The socket and the session\<close>

text \<open>\<^verbatim>\<open>setupChatWebSocket\<close> constructs one socket and installs four handlers; none of them
  constructs another. The effect of \<^verbatim>\<open>ChatProvider\<close> calls it when \<^verbatim>\<open>useWebsocket\<close> holds
  and stores the socket.\<close>

definition setupChatWebSocket :: "ready_state \<times> effect list" where
  "setupChatWebSocket = (CONNECTING, [OpenSocket WS_BASE_URL])"

definition useEffect_websocket :: "chat_state \<Rightarrow> chat_state \<times> effect list" where
  "useEffect_websocket st =
     (if useWebsocket st
      then (case setupChatWebSocket of (ws, effs) \<Rightarrow> (st\<lparr>websocket := Some ws\<rparr>, effs))
      else (st, []))"

text \<open>The clean-up of that effect: \<^verbatim>\<open>ws.close()\<close> on the socket of the run that returned
  it, which moves a socket that is not closed yet to \<^verbatim>\<open>CLOSING\<close>; the state variable keeps
  referring to that socket. A run that opened no socket returns no clean-up.\<close>

definition useEffect_cleanup :: "chat_state \<Rightarrow> chat_state \<times> effect list" where
  "useEffect_cleanup st =
     (if useWebsocket st
      then (case websocket st of
              None \<Rightarrow> (st, [])
            | Some CLOSED \<Rightarrow> (st, [CloseSocket])
            | Some _ \<Rightarrow> (st\<lparr>websocket := Some CLOSING\<rparr>, [CloseSocket]))
      else (st, []))"

text \<open>\<^verbatim>\<open>setUseWebsocket\<close> is exported through the context value. A changed value runs the
  clean-up of the previous effect and then the effect again.\<close>

definition setUseWebsocket :: "bool \<Rightarrow> chat_state \<Rightarrow> chat_state \<times> effect list" where
  "setUseWebsocket b st =
     (if b = useWebsocket st then (st, [])
      else (case useEffect_cleanup st of (st1, effs1) \<Rightarrow>
              (case useEffect_websocket (st1\<lparr>useWebsocket := b\<rparr>) of (st2, effs2) \<Rightarrow>
                 (st2, effs1 @ effs2))))"

text \<open>The browser moves the \<^verbatim>\<open>readyState\<close> of a socket forward only.\<close>

fun ready_rank :: "ready_state \<Rightarrow> nat" where
  "ready_rank CONNECTING = 0"
| "ready_rank OPEN = 1"
| "ready_rank CLOSING = 2"
| "ready_rank CLOSED = 3"

definition socket_advance :: "ready_state \<Rightarrow> chat_state \<Rightarrow> chat_state" where
  "socket_advance rs st =
     (case websocket st of
        None \<Rightarrow> st
      | Some cur \<Rightarrow> if ready_rank cur < ready_rank rs then st\<lparr>websocket := Some rs\<rparr> else st)"

text \<open>What can happen in a session after the provider is mounted. The handlers
  \<^verbatim>\<open>onopen\<close>, \<^verbatim>\<open>onclose\<close> and \<^verbatim>\<open>onerror\<close> of the socket only log, so a life-cycle event of
  the socket is the change of its \<^verbatim>\<open>readyState\<close>.\<close>

datatype event =
    TopicSelect string
  | Submit string
  | WsFrame ws_payload
  | WsReadyState ready_state
  | FetchSettled fetch_outcome
  | SetUseWebsocket bool
  | SetShowPostPreview bool
  | PostToLinkedIn

fun step :: "event \<Rightarrow> chat_state \<Rightarrow> chat_state \<times> effect list" where
  "step (TopicSelect topic) st = handleTopicSelect topic st"
| "step (Submit message) st = handleSubmit message st"
| "step (WsFrame payload) st = (ws_onmessage payload st, [])"
| "step (WsReadyState rs) st = (socket_advance rs st, [])"
| "step (FetchSettled outcome) st = (sendMessageREST_settled outcome st, [])"
| "step (SetUseWebsocket b) st = setUseWebsocket b st"
| "step (SetShowPostPreview b) st = (st\<lparr>showPostPreview := b\<rparr>, [])"
| "step PostToLinkedIn st = (postToLinkedIn st, [])"

fun run :: "event list \<Rightarrow> chat_state \<Rightarrow> chat_state \<times> effect list" where
  "run [] st = (st, [])"
| "run (e # es) st =
     (case step e st of (st1, effs1) \<Rightarrow>
        (case run es st1 of (st2, effs2) \<Rightarrow> (st2, effs1 @ effs2)))"

text \<open>The state after the first render and the first run of the effect.\<close>

definition mounted :: chat_state where
  "mounted = fst (useEffect_websocket initial_state)"

section \<open>Notions of the specification\<close>

text \<open>The request body of the specification's section 6, in its words:
  \<^verbatim>\<open>{ message: string, chat_history: [{role, content}] }\<close>. The order of the keys of an
  object is immaterial.\<close>

fun is_json_string :: "json \<Rightarrow> bool" where
  "is_json_string (JString s) = True"
| "is_json_string _ = False"

fun is_role_content :: "json \<Rightarrow> bool" where
  "is_role_content (JObject [(k1, v1), (k2, v2)]) =
     (k1 = ''role'' \<and> k2 = ''content'' \<or> k1 = ''content'' \<and> k2 = ''role'')"
| "is_role_content _ = False"

fun is_history_array :: "json \<Rightarrow> bool" where
  "is_history_array (JArray hs) = list_all is_role_content hs"
| "is_history_array _ = False"

fun chat_request_shape :: "json \<Rightarrow> bool" where
  "chat_request_shape (JObject [(k1, v1), (k2, v2)]) =
     (k1 = ''message'' \<and> is_json_string v1 \<and> k2 = ''chat_history'' \<and> is_history_array v2
      \<or> k1 = ''chat_history'' \<and> is_history_array v1 \<and> k2 = ''message'' \<and> is_json_string v2)"
| "chat_request_shape _ = False"

text \<open>The source has no variable for the state \<^verbatim>\<open>REST_ONLY\<close> of the fallback policy, and
  a send that falls back to REST writes neither \<^verbatim>\<open>useWebsocket\<close> nor the socket. What
  \<^verbatim>\<open>sendMessage\<close> and \<^verbatim>\<open>sendMessageWS\<close> test at each send is \<^verbatim>\<open>useWebsocket\<close> and the
  \<^verbatim>\<open>readyState\<close> of the one socket of the session. The predicate below is the condition
  on these two under which no later send can reach the socket: \<^verbatim>\<open>useWebsocket\<close> is false,
  or that socket is closing or closed. It is a condition of the code, not the state
  \<^verbatim>\<open>REST_ONLY\<close>: a fallback send with a connecting socket does not establish it.\<close>

definition streaming_off :: "chat_state \<Rightarrow> bool" where
  "streaming_off st =
     (\<not> useWebsocket st \<or> websocket st = Some CLOSING \<or> websocket st = Some CLOSED)"

fun is_open_socket :: "effect \<Rightarrow> bool" where
  "is_open_socket (OpenSocket url) = True"
| "is_open_socket _ = False"

fun is_stream_attempt :: "effect \<Rightarrow> bool" where
  "is_stream_attempt (OpenSocket url) = True"
| "is_stream_attempt (WsSend body) = True"
| "is_stream_attempt CloseSocket = False"
| "is_stream_attempt (Fetch req) = False"

section \<open>Auxiliary facts\<close>

lemmas ev_defs =
  handleTopicSelect_def handleSubmit_def sendMessage_def sendMessageWS_def sendMessageREST_def
  sendMessageREST_settled_def ws_onmessage_def handleWebSocketMessage_def
  append_content_chunk_def Fragment_def Complete_def Error_def truthy_string_def
  truthy_bool_def socket_advance_def mounted_def useEffect_websocket_def
  useEffect_cleanup_def setUseWebsocket_def setupChatWebSocket_def initial_state_def
  userMessage_def chatHistory_def trim_def js_whitespace_def onError_def onClose_def
  fetchChatResponse_def postToLinkedIn_def streaming_off_def

lemma append_chunk_last_assistant:
  "role a = Assistant \<Longrightarrow>
   append_content_chunk c (ms @ [a]) = ms @ [a\<lparr>content := content a @ c\<rparr>]"
  by (simp add: append_content_chunk_def nth_append)

lemma append_chunk_new:
  "ms = [] \<or> role (last ms) \<noteq> Assistant \<Longrightarrow>
   append_content_chunk c ms = ms @ [\<lparr>role = Assistant, content = c, shouldPost = None\<rparr>]"
  by (cases ms rule: rev_cases) (auto simp add: append_content_chunk_def nth_append)

lemma handle_Fragment:
  "handleWebSocketMessage (Fragment t) st =
     (if t = [] then st else st\<lparr>messages := append_content_chunk t (messages st)\<rparr>)"
  by (simp add: handleWebSocketMessage_def Fragment_def truthy_string_def)

lemma handle_error:
  "truthy_string (data_error d) \<Longrightarrow> handleWebSocketMessage d st = st\<lparr>isTyping := False\<rparr>"
  by (simp add: handleWebSocketMessage_def)

lemma fragments_on_assistant:
  "role a = Assistant \<Longrightarrow> messages st = ms @ [a] \<Longrightarrow>
   applyStreamEvents (map Fragment ts) st =
     st\<lparr>messages := ms @ [a\<lparr>content := content a @ concat ts\<rparr>]\<rparr>"
proof (induction ts arbitrary: st a)
  case Nil
  then show ?case by (simp add: applyStreamEvents_def)
next
  case (Cons t ts)
  show ?case
  proof (cases "t = []")
    case True
    with Cons show ?thesis by (simp add: applyStreamEvents_def handle_Fragment)
  next
    case False
    let ?a = "a\<lparr>content := content a @ t\<rparr>"
    let ?st = "st\<lparr>messages := ms @ [?a]\<rparr>"
    have h: "handleWebSocketMessage (Fragment t) st = ?st"
      using Cons.prems False by (simp add: handle_Fragment append_chunk_last_assistant)
    have "applyStreamEvents (map Fragment ts) ?st =
            ?st\<lparr>messages := ms @ [?a\<lparr>content := content ?a @ concat ts\<rparr>]\<rparr>"
      by (rule Cons.IH) (use Cons.prems in simp_all)
    then show ?thesis using h by (simp add: applyStreamEvents_def)
  qed
qed

lemma fragments_on_other:
  "messages st = [] \<or> role (last (messages st)) \<noteq> Assistant \<Longrightarrow>
   applyStreamEvents (map Fragment ts) st =
     (if concat ts = [] then st
      else st\<lparr>messages := messages st @
                 [\<lparr>role = Assistant, content = concat ts, shouldPost = None\<rparr>]\<rparr>)"
proof (induction ts arbitrary: st)
  case Nil
  then show ?case by (simp add: applyStreamEvents_def)
next
  case (Cons t ts)
  show ?case
  proof (cases "t = []")
    case True
    with Cons show ?thesis by (simp add: applyStreamEvents_def handle_Fragment)
  next
    case False
    let ?a = "\<lparr>role = Assistant, content = t, shouldPost = None\<rparr>"
    let ?st = "st\<lparr>messages := messages st @ [?a]\<rparr>"
    have h: "handleWebSocketMessage (Fragment t) st = ?st"
      using Cons.prems False by (simp add: handle_Fragment append_chunk_new)
    have "applyStreamEvents (map Fragment ts) ?st =
            ?st\<lparr>messages := messages st @ [?a\<lparr>content := content ?a @ concat ts\<rparr>]\<rparr>"
      by (rule fragments_on_assistant) simp_all
    then show ?thesis using h False by (simp add: applyStreamEvents_def)
  qed
qed

lemma send_streaming_off: "streaming_off st \<Longrightarrow> sendMessage m st = sendMessageREST m st"
  by (auto simp add: streaming_off_def sendMessage_def sendMessageWS_def)

lemma handle_keeps_socket:
  "websocket (handleWebSocketMessage d st) = websocket st \<and>
   useWebsocket (handleWebSocketMessage d st) = useWebsocket st"
  by (simp add: handleWebSocketMessage_def split: option.splits)

lemma settled_keeps_socket:
  "websocket (sendMessageREST_settled oc st) = websocket st \<and>
   useWebsocket (sendMessageREST_settled oc st) = useWebsocket st"
  by (cases oc) (simp_all add: sendMessageREST_settled_def Let_def)

lemma history_entries_shape:
  "list_all is_role_content
     (map (\<lambda>msg. JObject [(''role'', JString (f msg)), (''content'', JString (g msg))]) xs)"
  by (induction xs) simp_all

section \<open>Assembling fragments\<close>

text \<open>
  A fragment whose text is the empty string is falsy in the test \<^verbatim>\<open>if (data.content)\<close> and
  is ignored. After a user turn, the single fragment with empty text therefore leaves the
  turn list as it was: no ASSISTANT turn is created, against the first testable property
  of the specification read for every sequence of fragments.
\<close>

theorem empty_fragment_creates_no_turn:
  "messages (applyStreamEvents [Fragment '''']
      (mounted\<lparr>messages := [userMessage ''Career tips''], isTyping := True\<rparr>))
     = [userMessage ''Career tips'']
   \<and> messages (applyStreamEvents [Fragment '''']
      (mounted\<lparr>messages := [userMessage ''Career tips''], isTyping := True\<rparr>))
     \<noteq> [userMessage ''Career tips'',
         \<lparr>role = Assistant, content = concat [''''], shouldPost = None\<rparr>]"
  by (simp add: applyStreamEvents_def handle_Fragment ev_defs)

text \<open>
  Claim C1, amended. For every sequence of Fragment events applied in arrival order to a
  state whose last turn is a user turn: when every fragment text is empty the state is
  unchanged; otherwise exactly one ASSISTANT turn is appended after the user turn, its
  content is the concatenation of the fragment texts in arrival order, and nothing else
  in the state changes.
\<close>

theorem fragments_concatenate:
  assumes "messages st = ms @ [u]" and "role u = User"
  shows "applyStreamEvents (map Fragment ts) st =
           (if concat ts = [] then st
            else st\<lparr>messages := ms @ [u,
                   \<lparr>role = Assistant, content = concat ts, shouldPost = None\<rparr>]\<rparr>)"
proof -
  have "messages st = [] \<or> role (last (messages st)) \<noteq> Assistant"
    using assms by simp
  from fragments_on_other [OF this, of ts] show ?thesis
    using assms(1) by simp
qed

theorem fragments_concatenate_witness:
  "applyStreamEvents (map Fragment [''Here '', '''', ''are tips...''])
      (mounted\<lparr>messages := [userMessage ''Career tips''], isTyping := True\<rparr>)
   = mounted\<lparr>messages := [userMessage ''Career tips'',
         \<lparr>role = Assistant, content = ''Here are tips...'', shouldPost = None\<rparr>],
       isTyping := True\<rparr>"
  using fragments_concatenate
    [of "mounted\<lparr>messages := [userMessage ''Career tips''], isTyping := True\<rparr>"
        "[]" "userMessage ''Career tips''" "[''Here '', '''', ''are tips...'']"]
  by (simp add: userMessage_def)

section \<open>Error events\<close>

text \<open>
  The error branch of \<^verbatim>\<open>handleWebSocketMessage\<close> logs and calls \<^verbatim>\<open>setIsTyping(false)\<close>; it
  does not touch the turn list, so its length does not grow by one.
\<close>

theorem error_event_appends_no_turn:
  "length (messages (handleWebSocketMessage (Error ''Model overloaded'')
      (mounted\<lparr>messages := [userMessage ''Career tips''], isTyping := True\<rparr>)))
   \<noteq> length (messages
      (mounted\<lparr>messages := [userMessage ''Career tips''], isTyping := True\<rparr>)) + 1"
  by (simp add: ev_defs)

text \<open>
  Claim C2, amended. For every stream event whose error field is a non-empty string,
  applied to any conversation state, afterwards \<^verbatim>\<open>isTyping\<close> is false and the turn list
  is unchanged, as is every other part of the state: the message goes to the console and
  no turn shows it. A request of \<^verbatim>\<open>sendMessageREST\<close> that fails does the same.
\<close>

theorem error_event_resets_typing_only:
  assumes "truthy_string (data_error d)"
  shows "isTyping (handleWebSocketMessage d st) = False
       \<and> messages (handleWebSocketMessage d st) = messages st
       \<and> handleWebSocketMessage d st = st\<lparr>isTyping := False\<rparr>
       \<and> sendMessageREST_settled NetworkError st = st\<lparr>isTyping := False\<rparr>
       \<and> sendMessageREST_settled HttpError st = st\<lparr>isTyping := False\<rparr>
       \<and> sendMessageREST_settled BodyUnparsable st = st\<lparr>isTyping := False\<rparr>"
  using assms by (simp add: handle_error sendMessageREST_settled_def)

theorem error_event_resets_typing_only_witness:
  "truthy_string (data_error (Error ''Model overloaded''))
   \<and> handleWebSocketMessage (Error ''Model overloaded'')
       (mounted\<lparr>messages := [userMessage ''Career tips''], isTyping := True\<rparr>)
     = mounted\<lparr>messages := [userMessage ''Career tips''], isTyping := False\<rparr>"
proof -
  have h: "truthy_string (data_error (Error ''Model overloaded''))"
    by (simp add: Error_def truthy_string_def)
  show ?thesis
    using h error_event_resets_typing_only
      [OF h, of "mounted\<lparr>messages := [userMessage ''Career tips''], isTyping := True\<rparr>"]
    by simp
qed

section \<open>Fragments after completion\<close>

text \<open>
  The state has no mark for a turn in progress: \<^verbatim>\<open>Complete\<close> only resets \<^verbatim>\<open>isTyping\<close>. A
  fragment that arrives after it finds an ASSISTANT turn at the end of the list and
  appends to it, so the content of the completed turn changes.
\<close>

theorem straggler_fragment_alters_turn:
  "messages (applyStreamEvents [Fragment ''Hello'', Complete False None]
      (mounted\<lparr>messages := [userMessage ''hi''], isTyping := True\<rparr>))
     = [userMessage ''hi'', \<lparr>role = Assistant, content = ''Hello'', shouldPost = None\<rparr>]
   \<and> messages (applyStreamEvents [Fragment ''Hello'', Complete False None, Fragment '' again'']
      (mounted\<lparr>messages := [userMessage ''hi''], isTyping := True\<rparr>))
     = [userMessage ''hi'', \<lparr>role = Assistant, content = ''Hello again'', shouldPost = None\<rparr>]"
  by (simp add: ev_defs applyStreamEvents_def)

text \<open>
  Claim C3, amended. For every conversation state whose trailing turn is an ASSISTANT
  turn, as after a Complete event, a Fragment event arriving afterwards is not dropped:
  its text is appended to the content of that trailing turn. Every earlier turn, the
  number of turns, the role of the trailing turn, \<^verbatim>\<open>isTyping\<close> and the publish state are
  unchanged.
\<close>

theorem straggler_fragment_appends:
  assumes "messages st = ms @ [a]" and "role a = Assistant"
  shows "handleWebSocketMessage (Fragment t) st =
           st\<lparr>messages := ms @ [a\<lparr>content := content a @ t\<rparr>]\<rparr>"
proof (cases "t = []")
  case True
  have "st\<lparr>messages := ms @ [a]\<rparr> = st"
    using assms(1) by simp
  with True show ?thesis by (simp add: handle_Fragment)
next
  case False
  with assms show ?thesis by (simp add: handle_Fragment append_chunk_last_assistant)
qed

theorem straggler_fragment_appends_witness:
  "handleWebSocketMessage (Fragment '' again'')
     (handleWebSocketMessage (Complete False None)
        (mounted\<lparr>messages := [userMessage ''hi'',
            \<lparr>role = Assistant, content = ''Hello'', shouldPost = None\<rparr>], isTyping := True\<rparr>))
   = mounted\<lparr>messages := [userMessage ''hi'',
         \<lparr>role = Assistant, content = ''Hello again'', shouldPost = None\<rparr>],
       isTyping := False\<rparr>"
  using straggler_fragment_appends
    [of "handleWebSocketMessage (Complete False None)
           (mounted\<lparr>messages := [userMessage ''hi'',
              \<lparr>role = Assistant, content = ''Hello'', shouldPost = None\<rparr>], isTyping := True\<rparr>)"
        "[userMessage ''hi'']"
        "\<lparr>role = Assistant, content = ''Hello'', shouldPost = None\<rparr>" "'' again''"]
  by (simp add: handleWebSocketMessage_def Complete_def truthy_string_def truthy_bool_def)

section \<open>Sending while a reply is awaited\<close>

text \<open>
  \<^verbatim>\<open>sendMessage\<close> does not read \<^verbatim>\<open>isTyping\<close>. Called while a reply is awaited, as a click
  on a topic of the sidebar does, it appends the user turn and sends.
\<close>

theorem sendMessage_while_typing_mutates:
  "sendMessage ''Remote Work Best Practices''
     (mounted\<lparr>messages := [userMessage ''Career tips''], isTyping := True\<rparr>)
   \<noteq> (mounted\<lparr>messages := [userMessage ''Career tips''], isTyping := True\<rparr>, [])"
  by (simp add: ev_defs)

text \<open>
  Claim C4, amended. The guard is in the chat input: for every conversation state with
  \<^verbatim>\<open>isTyping\<close> true, a submit through \<^verbatim>\<open>handleSubmit\<close> of \<^verbatim>\<open>ChatInput\<close> is rejected and
  mutates nothing; the turn list, \<^verbatim>\<open>isTyping\<close> and \<^verbatim>\<open>currentPostContent\<close> are unchanged and
  nothing is sent.
\<close>

theorem handleSubmit_rejects_while_typing:
  assumes "isTyping st"
  shows "handleSubmit message st = (st, [])"
  using assms by (simp add: handleSubmit_def)

theorem handleSubmit_rejects_while_typing_witness:
  "isTyping (mounted\<lparr>messages := [userMessage ''Career tips''], isTyping := True\<rparr>)
   \<and> handleSubmit ''Remote Work Best Practices''
       (mounted\<lparr>messages := [userMessage ''Career tips''], isTyping := True\<rparr>)
     = (mounted\<lparr>messages := [userMessage ''Career tips''], isTyping := True\<rparr>, [])"
proof -
  have h: "isTyping (mounted\<lparr>messages := [userMessage ''Career tips''], isTyping := True\<rparr>)"
    by simp
  show ?thesis
    using h handleSubmit_rejects_while_typing [OF h, of "''Remote Work Best Practices''"]
    by simp
qed

section \<open>Fallback to the request/response transport\<close>

text \<open>
  The fallback is decided anew at every send and leaves no trace in the state. A send
  while the socket is still connecting goes over REST with \<^verbatim>\<open>useWebsocket\<close> left true, and
  once the socket has opened the next send goes over the socket: the session did not
  become REST only.
\<close>

theorem fallback_records_no_demotion:
  "useWebsocket (fst (sendMessage ''a'' mounted))
   \<and> snd (run [Submit ''a'', FetchSettled NetworkError, WsReadyState OPEN, Submit ''b''] mounted)
     = [Fetch (fetchChatResponse ''a'' []),
        WsSend (JObject [(''message'', JString ''b''),
          (''chat_history'',
           JArray [JObject [(''role'', JString ''user''), (''content'', JString ''a'')]])])]"
  by (simp add: ev_defs)

text \<open>
  Claim C5, amended. For every send in which the WebSocket is absent or not open, the
  send is carried out by \<^verbatim>\<open>sendMessageREST\<close>: the user turn is appended, \<^verbatim>\<open>isTyping\<close> is
  set, and one POST of \<^verbatim>\<open>fetchChatResponse\<close> is issued with the same message and the
  history of the turns before this send. \<^verbatim>\<open>useWebsocket\<close> and \<^verbatim>\<open>websocket\<close> are unchanged:
  no transition to a REST-only state is recorded.
\<close>

theorem fallback_replays_send_over_rest:
  assumes "websocket st = None \<or> websocket st \<noteq> Some OPEN"
  shows "sendMessage messageText st =
           (st\<lparr>isTyping := True, messages := messages st @ [userMessage messageText]\<rparr>,
            [Fetch (fetchChatResponse messageText (chatHistory (messages st)))])"
  using assms by (auto simp add: sendMessage_def sendMessageWS_def sendMessageREST_def)

theorem fallback_replays_send_over_rest_witness:
  "(websocket (socket_advance CLOSED mounted) = None
      \<or> websocket (socket_advance CLOSED mounted) \<noteq> Some OPEN)
   \<and> sendMessage ''Career tips'' (socket_advance CLOSED mounted)
     = (\<lparr>messages = [userMessage ''Career tips''], isTyping = True,
         currentPostContent = None, showPostPreview = False,
         websocket = Some CLOSED, useWebsocket = True\<rparr>,
        [Fetch (fetchChatResponse ''Career tips'' [])])"
proof -
  have h: "websocket (socket_advance CLOSED mounted) = None
             \<or> websocket (socket_advance CLOSED mounted) \<noteq> Some OPEN"
    by (simp add: ev_defs)
  show ?thesis
    using h fallback_replays_send_over_rest [OF h, of "''Career tips''"]
    by (simp add: ev_defs)
qed

text \<open>
  A send that found the socket still connecting went over REST: by the fallback policy of
  the specification the session is demoted from then on. The code records nothing, so
  once the socket has opened a subsequent send is written to it: streaming is attempted
  again after the demotion.
\<close>

theorem fallback_send_is_not_sticky:
  "snd (run [TopicSelect ''Work-Life Balance Tips''] mounted)
     = [Fetch (fetchChatResponse ''Work-Life Balance Tips'' [])]
   \<and> \<not> streaming_off (fst (run [TopicSelect ''Work-Life Balance Tips''] mounted))
   \<and> snd (run [FetchSettled HttpError, WsReadyState OPEN, Submit ''Leadership'']
            (fst (run [TopicSelect ''Work-Life Balance Tips''] mounted)))
     = [WsSend (JObject [(''message'', JString ''Leadership''),
          (''chat_history'',
           JArray [JObject [(''role'', JString ''user''),
                            (''content'', JString ''Work-Life Balance Tips'')]])])]
   \<and> list_ex is_stream_attempt
       (snd (run [FetchSettled HttpError, WsReadyState OPEN, Submit ''Leadership'']
              (fst (run [TopicSelect ''Work-Life Balance Tips''] mounted))))"
  by (simp add: ev_defs)

text \<open>
  Claim C6, amended. A fallback send by itself does not switch streaming off. Once
  \<^verbatim>\<open>useWebsocket\<close> is false, or the socket of the session is closing or closed, streaming
  is never retried within that session unless \<^verbatim>\<open>setUseWebsocket(true)\<close> is called: through
  every later sequence of events without that call the condition persists, every
  subsequent send goes over REST and none is written to the socket, and no socket is
  opened. In every session, whatever its state, no event other than
  \<^verbatim>\<open>setUseWebsocket(true)\<close> opens a socket: \<^verbatim>\<open>setupChatWebSocket\<close> never reconnects by
  itself.
\<close>

theorem streaming_off_never_streams:
  assumes "SetUseWebsocket True \<notin> set evs"
  shows "\<not> list_ex is_open_socket (snd (run evs st))
       \<and> (streaming_off st \<longrightarrow>
            streaming_off (fst (run evs st)) \<and> \<not> list_ex is_stream_attempt (snd (run evs st)))"
proof -
  have step_open: "\<not> list_ex is_open_socket (snd (step e s))"
    if "e \<noteq> SetUseWebsocket True" for e s
  proof (cases e)
    case (SetUseWebsocket b)
    with that have "\<not> b" by simp
    with SetUseWebsocket show ?thesis
      by (simp add: setUseWebsocket_def useEffect_cleanup_def useEffect_websocket_def
            split: option.splits ready_state.splits)
  qed (simp_all add: handleTopicSelect_def handleSubmit_def sendMessage_def
         sendMessageWS_def sendMessageREST_def)
  have step_rest: "streaming_off (fst (step e s)) \<and> \<not> list_ex is_stream_attempt (snd (step e s))"
    if "streaming_off s" and "e \<noteq> SetUseWebsocket True" for e s
  proof (cases e)
    case (TopicSelect m)
    with that show ?thesis
      by (simp add: handleTopicSelect_def send_streaming_off)
         (simp add: sendMessageREST_def streaming_off_def)
  next
    case (Submit m)
    with that show ?thesis
      by (simp add: handleSubmit_def send_streaming_off)
         (simp add: sendMessageREST_def streaming_off_def)
  next
    case (WsFrame p)
    with that show ?thesis
      by (cases p) (simp_all add: ws_onmessage_def onError_def streaming_off_def handle_keeps_socket)
  next
    case (WsReadyState rs)
    with that show ?thesis
      by (cases rs) (auto simp add: socket_advance_def streaming_off_def split: option.splits)
  next
    case (FetchSettled oc)
    with that show ?thesis by (simp add: streaming_off_def settled_keeps_socket)
  next
    case (SetUseWebsocket b)
    with that have "\<not> b" by simp
    with SetUseWebsocket show ?thesis
      by (simp add: setUseWebsocket_def useEffect_cleanup_def useEffect_websocket_def
            streaming_off_def split: option.splits ready_state.splits)
  next
    case (SetShowPostPreview b)
    with that show ?thesis by (simp add: streaming_off_def)
  next
    case PostToLinkedIn
    with that show ?thesis by (simp add: streaming_off_def postToLinkedIn_def)
  qed
  have no_open: "\<not> list_ex is_open_socket (snd (run evs st))"
    using assms
  proof (induction evs arbitrary: st)
    case Nil
    then show ?case by simp
  next
    case (Cons e es)
    have "\<not> list_ex is_open_socket (snd (step e st))"
      using Cons.prems by (intro step_open) auto
    moreover have "\<not> list_ex is_open_socket (snd (run es (fst (step e st))))"
      using Cons.prems by (intro Cons.IH) auto
    ultimately show ?case by (simp add: split_beta)
  qed
  have stays: "streaming_off (fst (run evs st)) \<and> \<not> list_ex is_stream_attempt (snd (run evs st))"
    if "streaming_off st"
    using that assms
  proof (induction evs arbitrary: st)
    case Nil
    then show ?case by simp
  next
    case (Cons e es)
    have s: "streaming_off (fst (step e st)) \<and> \<not> list_ex is_stream_attempt (snd (step e st))"
      using Cons.prems by (intro step_rest) auto
    have "streaming_off (fst (run es (fst (step e st))))
            \<and> \<not> list_ex is_stream_attempt (snd (run es (fst (step e st))))"
      using s Cons.prems by (intro Cons.IH) auto
    with s show ?case by (simp add: split_beta)
  qed
  from no_open stays show ?thesis by blast
qed

theorem streaming_off_never_streams_witness:
  "SetUseWebsocket True \<notin>
     set [SetUseWebsocket False, Submit ''a'', WsReadyState OPEN, TopicSelect ''b'']
   \<and> streaming_off (socket_advance CLOSED mounted)
   \<and> streaming_off (fst (run [SetUseWebsocket False, Submit ''a'', WsReadyState OPEN,
                         TopicSelect ''b''] (socket_advance CLOSED mounted)))
   \<and> snd (run [SetUseWebsocket False, Submit ''a'', WsReadyState OPEN, TopicSelect ''b'']
            (socket_advance CLOSED mounted))
     = [CloseSocket, Fetch (fetchChatResponse ''a'' []),
        Fetch (fetchChatResponse ''b'' (chatHistory [userMessage ''a'']))]"
proof -
  have h: "SetUseWebsocket True \<notin>
     set [SetUseWebsocket False, Submit ''a'', WsReadyState OPEN, TopicSelect ''b'']"
    by simp
  have r: "streaming_off (socket_advance CLOSED mounted)"
    by (simp add: ev_defs)
  show ?thesis
    using h r streaming_off_never_streams [OF h, of "socket_advance CLOSED mounted"]
    by (simp add: ev_defs)
qed

text \<open>
  The call \<^verbatim>\<open>setUseWebsocket(true)\<close> is the one way back: the changed value runs the effect
  of the provider again, which opens a new socket. No component of the sources makes
  that call.
\<close>

lemma setUseWebsocket_true_reopens:
  "snd (run [SetUseWebsocket False, SetUseWebsocket True] mounted)
     = [CloseSocket, OpenSocket WS_BASE_URL]"
  by (simp add: ev_defs)

section \<open>Malformed frames\<close>

text \<open>
  A frame that \<^verbatim>\<open>JSON.parse\<close> rejects reaches the \<^verbatim>\<open>onError\<close> callback of the provider,
  which only logs. While a reply is awaited, \<^verbatim>\<open>isTyping\<close> stays true and the turn list is
  as before, whereas an Error event resets \<^verbatim>\<open>isTyping\<close>: the two are not handled alike.
\<close>

theorem malformed_frame_keeps_typing:
  "isTyping (ws_onmessage Unparsable
      (mounted\<lparr>messages := [userMessage ''Career tips''], isTyping := True\<rparr>))
   \<and> messages (ws_onmessage Unparsable
      (mounted\<lparr>messages := [userMessage ''Career tips''], isTyping := True\<rparr>))
     = [userMessage ''Career tips'']
   \<and> \<not> isTyping (ws_onmessage (Parsed (Error ''boom''))
      (mounted\<lparr>messages := [userMessage ''Career tips''], isTyping := True\<rparr>))"
  by (simp add: ev_defs)

text \<open>
  Claim C7, amended. A stream frame that fails to parse as JSON is passed to the
  \<^verbatim>\<open>onError\<close> callback. Like an Error event (a frame with a non-empty error field) it
  appends no turn and leaves the publish state alone: the turn list,
  \<^verbatim>\<open>currentPostContent\<close> and \<^verbatim>\<open>showPostPreview\<close> are the same after either, and equal to what
  they were.
\<close>

theorem malformed_frame_like_error_on_turns:
  assumes "truthy_string (data_error d)"
  shows "messages (ws_onmessage Unparsable st) = messages (ws_onmessage (Parsed d) st)
       \<and> currentPostContent (ws_onmessage Unparsable st)
           = currentPostContent (ws_onmessage (Parsed d) st)
       \<and> showPostPreview (ws_onmessage Unparsable st)
           = showPostPreview (ws_onmessage (Parsed d) st)
       \<and> messages (ws_onmessage Unparsable st) = messages st
       \<and> currentPostContent (ws_onmessage Unparsable st) = currentPostContent st
       \<and> showPostPreview (ws_onmessage Unparsable st) = showPostPreview st"
  using assms by (simp add: ws_onmessage_def onError_def handle_error)

theorem malformed_frame_like_error_on_turns_witness:
  "truthy_string (data_error (Error ''boom''))
   \<and> messages (ws_onmessage Unparsable
        (mounted\<lparr>messages := [userMessage ''Career tips''], isTyping := True\<rparr>))
     = messages (ws_onmessage (Parsed (Error ''boom''))
        (mounted\<lparr>messages := [userMessage ''Career tips''], isTyping := True\<rparr>))"
proof -
  have h: "truthy_string (data_error (Error ''boom''))"
    by (simp add: Error_def truthy_string_def)
  show ?thesis
    using h malformed_frame_like_error_on_turns
      [OF h, of "mounted\<lparr>messages := [userMessage ''Career tips''], isTyping := True\<rparr>"]
    by simp
qed

section \<open>The request of the single-shot chat call\<close>

text \<open>
  \<^verbatim>\<open>fetchChatResponse\<close> of \<^verbatim>\<open>services/api\<close>, the function the chat context calls, posts an
  object with the single key \<^verbatim>\<open>messages\<close>; it has neither \<^verbatim>\<open>message\<close> nor \<^verbatim>\<open>chat_history\<close>.
\<close>

theorem services_fetchChatResponse_other_shape:
  "\<not> chat_request_shape (req_body (fetchChatResponse ''Career tips'' []))"
  by (simp add: fetchChatResponse_def)

text \<open>
  Claim C8, amended. For every message and chat history, \<^verbatim>\<open>fetchChatResponse\<close> of
  \<^verbatim>\<open>api/api.js\<close> (with the message trimmed) and \<^verbatim>\<open>sendMessage\<close> of \<^verbatim>\<open>services/api.ts\<close> (with
  an empty history) issue a POST whose body has the shape
  \<^verbatim>\<open>{ message: string, chat_history: [{role, content}] }\<close>, whereas \<^verbatim>\<open>fetchChatResponse\<close> of
  \<^verbatim>\<open>services/api\<close> issues a POST whose body is \<^verbatim>\<open>{ messages: [{role, content}] }\<close>: the
  history followed by the new user turn.
\<close>

theorem chat_request_bodies:
  "req_method (fetchChatResponse_api_js message history) = ''POST''
   \<and> chat_request_shape (req_body (fetchChatResponse_api_js message history))
   \<and> req_method (sendMessage_api_ts message) = ''POST''
   \<and> chat_request_shape (req_body (sendMessage_api_ts message))
   \<and> req_method (fetchChatResponse message (chatHistory msgs)) = ''POST''
   \<and> req_body (fetchChatResponse message (chatHistory msgs))
       = JObject [(''messages'', JArray (chatHistory (msgs @ [userMessage message])))]"
  by (simp add: fetchChatResponse_api_js_def sendMessage_api_ts_def fetchChatResponse_def
        chatHistory_def userMessage_def history_entries_shape Let_def)

theorem chat_request_bodies_witness:
  "req_body (fetchChatResponse_api_js ''  Career tips '' [\<lparr>isUser = True, text_of = ''hi''\<rparr>])
     = JObject [(''message'', JString ''Career tips''),
         (''chat_history'',
          JArray [JObject [(''role'', JString ''user''), (''content'', JString ''hi'')]])]
   \<and> chat_request_shape
       (req_body (fetchChatResponse_api_js ''  Career tips '' [\<lparr>isUser = True, text_of = ''hi''\<rparr>]))"
  using chat_request_bodies
    [of "''  Career tips ''" "[\<lparr>isUser = True, text_of = ''hi''\<rparr>]" "[]"]
  by (simp add: fetchChatResponse_api_js_def trim_def js_whitespace_def)

section \<open>The scenario of the specification\<close>

text \<open>
  Claim C9. From the mounted provider with its socket open and an empty conversation:
  sending "Career tips", then the fragments "Here " and "are tips...", then
  \<^verbatim>\<open>Complete{shouldPublish:true, publishContent:"Here are tips..."}\<close> ends in a state with
  exactly the two turns USER "Career tips" and ASSISTANT "Here are tips...", \<^verbatim>\<open>isTyping\<close>
  false and \<^verbatim>\<open>currentPostContent\<close> equal to "Here are tips..."; the one frame sent carries
  the message and the empty history.
\<close>

theorem career_tips_scenario:
  "run [WsReadyState OPEN, Submit ''Career tips'',
        WsFrame (Parsed (Fragment ''Here '')), WsFrame (Parsed (Fragment ''are tips...'')),
        WsFrame (Parsed (Complete True (Some ''Here are tips...'')))] mounted
   = (\<lparr>messages = [\<lparr>role = User, content = ''Career tips'', shouldPost = None\<rparr>,
                   \<lparr>role = Assistant, content = ''Here are tips...'', shouldPost = None\<rparr>],
       isTyping = False, currentPostContent = Some ''Here are tips...'',
       showPostPreview = True, websocket = Some OPEN, useWebsocket = True\<rparr>,
      [WsSend (JObject [(''message'', JString ''Career tips''),
                        (''chat_history'', JArray [])])])"
  by (simp add: ev_defs)

theorem career_tips_scenario_witness:
  "length (messages (fst (run [WsReadyState OPEN, Submit ''Career tips'',
        WsFrame (Parsed (Fragment ''Here '')), WsFrame (Parsed (Fragment ''are tips...'')),
        WsFrame (Parsed (Complete True (Some ''Here are tips...'')))] mounted))) = 2
   \<and> \<not> isTyping (fst (run [WsReadyState OPEN, Submit ''Career tips'',
        WsFrame (Parsed (Fragment ''Here '')), WsFrame (Parsed (Fragment ''are tips...'')),
        WsFrame (Parsed (Complete True (Some ''Here are tips...'')))] mounted))"
  using career_tips_scenario by simp

section \<open>The publish offer\<close>

text \<open>
  Claim C10. For every Complete event and every REST reply, the publish offer is raised
  only when both flags are truthy: \<^verbatim>\<open>currentPostContent\<close> becomes \<^verbatim>\<open>post_content\<close> and the
  preview is shown exactly when \<^verbatim>\<open>should_post\<close> is true and \<^verbatim>\<open>post_content\<close> is a non-empty
  string; when \<^verbatim>\<open>post_content\<close> is absent or the empty string, or \<^verbatim>\<open>should_post\<close> is not
  true, neither is touched.
\<close>

theorem publish_offer_iff_both_truthy:
  assumes "\<not> truthy_string (data_error d)" and "data_type d = Some ''complete''"
  shows "currentPostContent (handleWebSocketMessage d st) =
           (if data_should_post d = Some True
               \<and> data_post_content d \<noteq> None \<and> data_post_content d \<noteq> Some []
            then data_post_content d else currentPostContent st)
       \<and> showPostPreview (handleWebSocketMessage d st) =
           (if data_should_post d = Some True
               \<and> data_post_content d \<noteq> None \<and> data_post_content d \<noteq> Some []
            then True else showPostPreview st)
       \<and> currentPostContent (sendMessageREST_settled (Reply r) st) =
           (if response_should_post r = Some True
               \<and> response_post_content r \<noteq> None \<and> response_post_content r \<noteq> Some []
            then response_post_content r else currentPostContent st)
       \<and> showPostPreview (sendMessageREST_settled (Reply r) st) =
           (if response_should_post r = Some True
               \<and> response_post_content r \<noteq> None \<and> response_post_content r \<noteq> Some []
            then True else showPostPreview st)"
  using assms
  by (auto simp add: handleWebSocketMessage_def sendMessageREST_settled_def
        truthy_string_def truthy_bool_def Let_def split: option.splits)

theorem publish_offer_iff_both_truthy_witness:
  "\<not> truthy_string (data_error (Complete True (Some '''')))
   \<and> data_type (Complete True (Some '''')) = Some ''complete''
   \<and> currentPostContent (handleWebSocketMessage (Complete True (Some '''')) mounted) = None
   \<and> showPostPreview (handleWebSocketMessage (Complete True (Some '''')) mounted) = False
   \<and> currentPostContent (sendMessageREST_settled
        (Reply \<lparr>response_message = ''Here are tips...'', response_should_post = Some True,
                response_post_content = Some ''Here are tips...''\<rparr>) mounted)
     = Some ''Here are tips...''"
proof -
  have h1: "\<not> truthy_string (data_error (Complete True (Some '''')))"
    by (simp add: Complete_def truthy_string_def)
  have h2: "data_type (Complete True (Some '''')) = Some ''complete''"
    by (simp add: Complete_def)
  show ?thesis
    using h1 h2 publish_offer_iff_both_truthy [OF h1 h2, of mounted
      "\<lparr>response_message = ''Here are tips...'', response_should_post = Some True,
        response_post_content = Some ''Here are tips...''\<rparr>"]
    by (simp add: ev_defs)
qed

end
